theory Spec2Isabelle
  imports Main "HOL-Library.Word"
begin

section \<open>The Linux runner: \<open>main.cc\<close> and \<open>my_application.h\<close>\<close>

text \<open>
  The runner is two lines of C++ over GLib/GTK:

  \<^verbatim>\<open>g_autoptr(MyApplication) app = my_application_new();\<close>
  \<^verbatim>\<open>return g_application_run(G_APPLICATION(app), argc, argv);\<close>

  The functions it calls are not defined in these two files, so \<open>main\<close> is modelled over
  an arbitrary toolkit: a record of the three functions it calls, each acting on an opaque
  toolkit state \<open>'s\<close>. In \<open>main\<close> below, calls are ordinary C calls: they return a value,
  and a failure is the value returned (a \<open>NULL\<close> handle, a non-zero status). A call that
  ends the process inside the toolkit never comes back to \<open>main\<close>; \<open>main_outcome\<close> further
  down adds those paths.
\<close>

subsection \<open>Values\<close>

text \<open>A C \<open>int\<close> (\<open>argc\<close>, the status of the run routine, the value \<open>main\<close> returns).\<close>

type_synonym c_int = "32 word"

text \<open>An object pointer (\<open>MyApplication*\<close>, \<open>GApplication*\<close>): \<open>NULL\<close> or an address.\<close>

datatype gpointer = NULL | Addr nat

text \<open>
  The toolkit as \<open>main\<close> sees it. \<open>'v\<close> is the type of the argument vector: \<open>main\<close> has
  no operation on it.
\<close>

record ('s, 'v) toolkit =
  app_new :: "'s \<Rightarrow> gpointer \<times> 's"
  app_run :: "gpointer \<Rightarrow> c_int \<Rightarrow> 'v \<Rightarrow> 's \<Rightarrow> c_int \<times> 's"
  object_unref :: "gpointer \<Rightarrow> 's \<Rightarrow> 's"

text \<open>
  One entry per completed call that \<open>main\<close> makes, in program order, with the arguments
  passed and the value returned.
\<close>

datatype 'v call =
    Call_new gpointer
  | Call_run gpointer c_int 'v c_int
  | Call_unref gpointer

record ('s, 'v) process =
  toolkit_state :: 's
  calls :: "'v call list"

fun is_new :: "'v call \<Rightarrow> bool" where
  "is_new (Call_new p) = True"
| "is_new (Call_run p c v r) = False"
| "is_new (Call_unref p) = False"

fun is_run :: "'v call \<Rightarrow> bool" where
  "is_run (Call_new p) = False"
| "is_run (Call_run p c v r) = True"
| "is_run (Call_unref p) = False"

fun run_args :: "'v call \<Rightarrow> (c_int \<times> 'v) option" where
  "run_args (Call_new p) = None"
| "run_args (Call_run p c v r) = Some (c, v)"
| "run_args (Call_unref p) = None"

subsection \<open>The three calls\<close>

text \<open>\<open>my_application_new()\<close> (main.cc line 9, declared in my_application.h line 24).\<close>

definition call_my_application_new ::
  "('s, 'v) toolkit \<Rightarrow> ('s, 'v) process \<Rightarrow> gpointer \<times> ('s, 'v) process" where
  "call_my_application_new tk ps =
     (case app_new tk (toolkit_state ps) of
        (p, s) \<Rightarrow> (p, \<lparr>toolkit_state = s, calls = calls ps @ [Call_new p]\<rparr>))"

text \<open>\<open>g_application_run(application, argc, argv)\<close> (main.cc line 10).\<close>

definition call_g_application_run ::
  "('s, 'v) toolkit \<Rightarrow> gpointer \<Rightarrow> c_int \<Rightarrow> 'v \<Rightarrow> ('s, 'v) process \<Rightarrow> c_int \<times> ('s, 'v) process" where
  "call_g_application_run tk application argc argv ps =
     (case app_run tk application argc argv (toolkit_state ps) of
        (r, s) \<Rightarrow> (r, \<lparr>toolkit_state = s, calls = calls ps @ [Call_run application argc argv r]\<rparr>))"

text \<open>\<open>g_object_unref(object)\<close>, reached through the cleanup of \<open>g_autoptr\<close>.\<close>

definition call_g_object_unref ::
  "('s, 'v) toolkit \<Rightarrow> gpointer \<Rightarrow> ('s, 'v) process \<Rightarrow> ('s, 'v) process" where
  "call_g_object_unref tk object ps =
     \<lparr>toolkit_state = object_unref tk object (toolkit_state ps),
      calls = calls ps @ [Call_unref object]\<rparr>"

subsection \<open>The two GLib macros of \<open>main\<close>\<close>

text \<open>
  \<open>G_APPLICATION(obj)\<close> is GLib's instance cast to \<open>GApplication*\<close>: a pointer conversion
  between object types, which yields the address it is given. The spec (4.1) has \<open>main\<close>
  pass "the instance" to the run operation.
\<close>

definition G_APPLICATION :: "gpointer \<Rightarrow> gpointer" where
  "G_APPLICATION obj = obj"

text \<open>
  \<open>g_autoptr(MyApplication) app\<close> attaches to \<open>app\<close> the cleanup function that
  \<open>G_DECLARE_FINAL_TYPE\<close> (my_application.h lines 11 to 15) declares for \<open>MyApplication\<close>.
  It runs when \<open>app\<close> leaves scope and drops the reference \<open>app\<close> holds with
  \<open>g_object_unref\<close>, unless \<open>app\<close> is \<open>NULL\<close>.
\<close>

definition glib_autoptr_cleanup_MyApplication ::
  "('s, 'v) toolkit \<Rightarrow> gpointer \<Rightarrow> ('s, 'v) process \<Rightarrow> ('s, 'v) process" where
  "glib_autoptr_cleanup_MyApplication tk app ps =
     (if app = NULL then ps else call_g_object_unref tk app ps)"

subsection \<open>\<open>main\<close>\<close>

text \<open>
  main.cc lines 8 to 11. The process starts with the toolkit state \<open>s0\<close> and no call made.
  The value of the \<open>return\<close> expression is computed first; \<open>app\<close> then leaves scope and its
  cleanup runs; \<open>main\<close> returns the value.
\<close>

definition process_start :: "'s \<Rightarrow> ('s, 'v) process" where
  "process_start s0 = \<lparr>toolkit_state = s0, calls = []\<rparr>"

definition main :: "('s, 'v) toolkit \<Rightarrow> c_int \<Rightarrow> 'v \<Rightarrow> 's \<Rightarrow> c_int \<times> ('s, 'v) process" where
  "main tk argc argv s0 =
     (case call_my_application_new tk (process_start s0) of
        (app, ps1) \<Rightarrow>
          (case call_g_application_run tk (G_APPLICATION app) argc argv ps1 of
             (r, ps2) \<Rightarrow> (r, glib_autoptr_cleanup_MyApplication tk app ps2)))"

definition exit_code :: "c_int \<times> ('s, 'v) process \<Rightarrow> c_int" where
  "exit_code res = fst res"

definition calls_made :: "c_int \<times> ('s, 'v) process \<Rightarrow> 'v call list" where
  "calls_made res = calls (snd res)"

definition final_state :: "c_int \<times> ('s, 'v) process \<Rightarrow> 's" where
  "final_state res = toolkit_state (snd res)"

text \<open>
  A toolkit double for concrete runs: its state counts the references handed out and not
  yet dropped, the factory returns \<open>p\<close>, and the run routine returns \<open>r\<close>.
\<close>

definition toolkit_double :: "gpointer \<Rightarrow> c_int \<Rightarrow> (nat, string list) toolkit" where
  "toolkit_double p r =
     \<lparr>app_new = (\<lambda>s. (p, Suc s)),
      app_run = (\<lambda>application argc argv s. (r, s)),
      object_unref = (\<lambda>object s. s - 1)\<rparr>"

text \<open>
  A toolkit double that counts: its state is the number of constructions, of runs and of
  releases so far. The factory returns a new address each time; the run routine fails with
  status 1 on a \<open>NULL\<close> application and succeeds with 0 otherwise.
\<close>

definition counting_toolkit :: "(nat \<times> nat \<times> nat, string list) toolkit" where
  "counting_toolkit =
     \<lparr>app_new = (\<lambda>(n, r, u). (Addr (Suc n), (Suc n, r, u))),
      app_run = (\<lambda>application argc argv (n, r, u).
                  (if application = NULL then 1 else 0, (n, Suc r, u))),
      object_unref = (\<lambda>object (n, r, u). (n, r, Suc u))\<rparr>"

text \<open>
  The same toolkit with its argument vectors in another representation: \<open>f\<close> translates
  what \<open>main\<close> is given into what the run routine reads.
\<close>

definition recode_argv :: "('v \<Rightarrow> 'w) \<Rightarrow> ('s, 'w) toolkit \<Rightarrow> ('s, 'v) toolkit" where
  "recode_argv f tk =
     \<lparr>app_new = app_new tk,
      app_run = (\<lambda>application argc argv s. app_run tk application argc (f argv) s),
      object_unref = object_unref tk\<rparr>"

subsection \<open>Toolkit calls that do not return\<close>

text \<open>
  A call into the toolkit need not come back: the toolkit can end the process inside the
  call (\<open>exit\<close>, \<open>abort\<close>, an error raised that nothing catches: main.cc has no handler).
  \<open>main\<close> then runs no further: the rest of its body is never reached, and neither is the
  end of the scope of \<open>app\<close>, where the cleanup of \<open>g_autoptr\<close> would run.
\<close>

datatype ('a, 's) outcome = Returns 'a 's | Ends_process 's

record ('s, 'v) ending_toolkit =
  new_outcome :: "'s \<Rightarrow> (gpointer, 's) outcome"
  run_outcome :: "gpointer \<Rightarrow> c_int \<Rightarrow> 'v \<Rightarrow> 's \<Rightarrow> (c_int, 's) outcome"
  unref_outcome :: "gpointer \<Rightarrow> 's \<Rightarrow> (unit, 's) outcome"

text \<open>The calls \<open>main\<close> has started, in program order, whether or not they returned.\<close>

datatype 'v started = Started_new | Started_run gpointer c_int 'v | Started_unref gpointer

fun is_started_unref :: "'v started \<Rightarrow> bool" where
  "is_started_unref Started_new = False"
| "is_started_unref (Started_run p c v) = False"
| "is_started_unref (Started_unref p) = True"

text \<open>How the process leaves \<open>main\<close>: by its \<open>return\<close>, or ended inside a toolkit call.\<close>

datatype ending = Main_returned c_int | Ended_in_toolkit

record ('s, 'v) report =
  ending :: ending
  started :: "'v started list"
  last_state :: 's

text \<open>
  main.cc lines 8 to 11 again, with every path: each of the three calls either returns, and
  \<open>main\<close> goes on as before, or ends the process there.
\<close>

definition main_outcome ::
  "('s, 'v) ending_toolkit \<Rightarrow> c_int \<Rightarrow> 'v \<Rightarrow> 's \<Rightarrow> ('s, 'v) report" where
  "main_outcome tk argc argv s0 =
     (case new_outcome tk s0 of
        Ends_process s \<Rightarrow>
          \<lparr>ending = Ended_in_toolkit, started = [Started_new], last_state = s\<rparr>
      | Returns app s1 \<Rightarrow>
          (case run_outcome tk (G_APPLICATION app) argc argv s1 of
             Ends_process s \<Rightarrow>
               \<lparr>ending = Ended_in_toolkit,
                started = [Started_new, Started_run (G_APPLICATION app) argc argv],
                last_state = s\<rparr>
           | Returns r s2 \<Rightarrow>
               (if app = NULL
                then \<lparr>ending = Main_returned r,
                      started = [Started_new, Started_run (G_APPLICATION app) argc argv],
                      last_state = s2\<rparr>
                else (case unref_outcome tk app s2 of
                        Ends_process s \<Rightarrow>
                          \<lparr>ending = Ended_in_toolkit,
                           started = [Started_new, Started_run (G_APPLICATION app) argc argv,
                                      Started_unref app],
                           last_state = s\<rparr>
                      | Returns u s3 \<Rightarrow>
                          \<lparr>ending = Main_returned r,
                           started = [Started_new, Started_run (G_APPLICATION app) argc argv,
                                      Started_unref app],
                           last_state = s3\<rparr>))))"

text \<open>A toolkit whose calls all return, as a toolkit whose calls may not.\<close>

definition always_returns :: "('s, 'v) toolkit \<Rightarrow> ('s, 'v) ending_toolkit" where
  "always_returns tk =
     \<lparr>new_outcome = (\<lambda>s. case app_new tk s of (p, s1) \<Rightarrow> Returns p s1),
      run_outcome = (\<lambda>application argc argv s.
                      case app_run tk application argc argv s of (r, s2) \<Rightarrow> Returns r s2),
      unref_outcome = (\<lambda>object s. Returns () (object_unref tk object s))\<rparr>"

fun started_of :: "'v call \<Rightarrow> 'v started" where
  "started_of (Call_new p) = Started_new"
| "started_of (Call_run p c v r) = Started_run p c v"
| "started_of (Call_unref p) = Started_unref p"

text \<open>
  The counting double with a run routine that ends the process (as a handler calling
  \<open>exit\<close> does) instead of returning.
\<close>

definition run_exits_toolkit :: "(nat \<times> nat \<times> nat, string list) ending_toolkit" where
  "run_exits_toolkit =
     \<lparr>new_outcome = (\<lambda>(n, r, u). Returns (Addr (Suc n)) (Suc n, r, u)),
      run_outcome = (\<lambda>application argc argv (n, r, u). Ends_process (n, Suc r, u)),
      unref_outcome = (\<lambda>object (n, r, u). Returns () (n, r, Suc u))\<rparr>"

section \<open>The Application type and its factory\<close>

text \<open>
  my_application.h declares the type and the factory; the file that defines them
  (\<open>my_application_get_type\<close>, generated by the type-definition macro, and
  \<open>my_application_new\<close>) is not among the sources. The header gives the names: the macro
  arguments at lines 11 to 15 are the type \<open>MyApplication\<close>, its namespace \<open>MY\<close>, its kind
  \<open>APPLICATION\<close> and its parent \<open>GtkApplication\<close>; line 24 declares
  \<open>MyApplication* my_application_new()\<close>, a function of no argument. The macro is
  \<open>G_DECLARE_FINAL_TYPE\<close>: the type is declared final.
\<close>

record type_identity =
  namespace :: string
  kind :: string
  concrete_name :: string

definition my_application_identity :: type_identity where
  "my_application_identity =
     \<lparr>namespace = ''MY'', kind = ''APPLICATION'', concrete_name = ''MyApplication''\<rparr>"

definition my_application_parent :: string where
  "my_application_parent = ''GtkApplication''"

definition my_application_final :: bool where
  "my_application_final = True"

text \<open>
  Modelled from the spec: the capabilities of the toolkit's base Application interface, which
  the toolkit defines; section 4.2 names them: lifecycle signals and command-line handling
  hooks.
\<close>

datatype capability = Lifecycle_signals | Command_line_hooks

definition base_application_capabilities :: "capability list" where
  "base_application_capabilities = [Lifecycle_signals, Command_line_hooks]"

text \<open>
  Modelled from the spec: the toolkit's runtime type system (sections 4.2 and 6), which is
  the toolkit's code: a registry of types, each with its name, its parent, the
  capabilities its instances implement, and whether it was declared final.
\<close>

record gtype_entry =
  gtype_name :: string
  gtype_parent :: "string option"
  gtype_capabilities :: "capability list"
  gtype_final :: bool

definition lookup_type :: "string \<Rightarrow> gtype_entry list \<Rightarrow> gtype_entry option" where
  "lookup_type n reg = find (\<lambda>e. gtype_name e = n) reg"

text \<open>
  Modelled from the spec: the toolkit's registration of a type, missing from the sources. A
  type specializes a registered parent and implements the parent's capabilities and its own.
  Registering a name a second time is the failure that property 5 of section 8 calls a crash
  of the type-registration mechanism. A final type admits no further specialization
  (section 4.2): deriving a subtype of it fails at registration (property 4 of section 8).
\<close>

datatype type_error = Type_already_registered | Parent_not_registered | Parent_is_final

definition g_type_register ::
  "string \<Rightarrow> string \<Rightarrow> capability list \<Rightarrow> bool \<Rightarrow> gtype_entry list
     \<Rightarrow> type_error + gtype_entry list" where
  "g_type_register n parent own final reg =
     (case lookup_type n reg of
        Some e \<Rightarrow> Inl Type_already_registered
      | None \<Rightarrow>
          (case lookup_type parent reg of
             None \<Rightarrow> Inl Parent_not_registered
           | Some pe \<Rightarrow>
               (if gtype_final pe then Inl Parent_is_final
                else Inr (reg @ [\<lparr>gtype_name = n, gtype_parent = Some parent,
                                  gtype_capabilities = gtype_capabilities pe @ own,
                                  gtype_final = final\<rparr>]))))"

text \<open>
  Modelled from the spec: the process-wide state of section 4.2, which lives in the toolkit
  and in the missing my_application.cc: the type registry, the guard of the one-time
  registration of \<open>MyApplication\<close>, and the live objects (address and type name).
\<close>

record gruntime =
  registry :: "gtype_entry list"
  my_application_type_once :: bool
  objects :: "(nat \<times> string) list"

text \<open>
  Modelled from the spec: the state at process start, set up by the toolkit: the toolkit's
  base Application type (the parent \<open>GtkApplication\<close> of the header, taken here as the
  root of the registry) is registered with the base capabilities and is not final, since
  the header specializes it; \<open>MyApplication\<close> is not registered, and no object exists.
\<close>

definition toolkit_registry :: "gtype_entry list" where
  "toolkit_registry =
     [\<lparr>gtype_name = ''GtkApplication'', gtype_parent = None,
       gtype_capabilities = base_application_capabilities, gtype_final = False\<rparr>]"

definition runtime_start :: gruntime where
  "runtime_start =
     \<lparr>registry = toolkit_registry, my_application_type_once = False, objects = []\<rparr>"

text \<open>
  Modelled from the spec: \<open>my_application_get_type\<close>, defined in the missing
  my_application.cc. Section 4.2: the type is registered at first use, once for the process;
  section 9: a guarded one-time initialization. The concrete type adds no capability of its
  own ("none is shown in this excerpt") and is registered as the header declares it: final.
\<close>

definition my_application_get_type :: "gruntime \<Rightarrow> type_error + gruntime" where
  "my_application_get_type rt =
     (if my_application_type_once rt then Inr rt
      else (case g_type_register (concrete_name my_application_identity) my_application_parent []
                   my_application_final (registry rt) of
              Inl e \<Rightarrow> Inl e
            | Inr reg \<Rightarrow> Inr (rt\<lparr>registry := reg, my_application_type_once := True\<rparr>)))"

text \<open>
  Modelled from the spec: the toolkit's allocation of an object, missing from the sources;
  "newly constructed" is an address no live object has.
\<close>

definition fresh_address :: "(nat \<times> string) list \<Rightarrow> nat" where
  "fresh_address objs = Suc (foldr max (map fst objs) 0)"

text \<open>
  Modelled from the spec: \<open>my_application_new\<close>, defined in the missing my_application.cc.
  Section 4.2: it takes no input, registers the type at first use and instantiates it.
\<close>

definition my_application_new :: "gruntime \<Rightarrow> type_error + (gpointer \<times> gruntime)" where
  "my_application_new rt =
     (case my_application_get_type rt of
        Inl e \<Rightarrow> Inl e
      | Inr rt1 \<Rightarrow>
          (let a = fresh_address (objects rt1)
           in Inr (Addr a,
                   rt1\<lparr>objects := objects rt1 @ [(a, concrete_name my_application_identity)]\<rparr>)))"

text \<open>
  Modelled from the spec: what an instance implements, decided by the toolkit's type system:
  the capabilities registered for the type of the object at that address.
\<close>

definition instance_capabilities :: "gruntime \<Rightarrow> gpointer \<Rightarrow> capability list" where
  "instance_capabilities rt p =
     (case p of
        NULL \<Rightarrow> []
      | Addr a \<Rightarrow>
          (case map_of (objects rt) a of
             None \<Rightarrow> []
           | Some n \<Rightarrow>
               (case lookup_type n (registry rt) of
                  None \<Rightarrow> []
                | Some e \<Rightarrow> gtype_capabilities e)))"

text \<open>The process state after \<open>n\<close> calls of the factory, if none of them failed.\<close>

fun after_constructions :: "nat \<Rightarrow> type_error + gruntime" where
  "after_constructions 0 = Inr runtime_start"
| "after_constructions (Suc n) =
     (case after_constructions n of
        Inl e \<Rightarrow> Inl e
      | Inr rt \<Rightarrow> (case my_application_new rt of Inl e \<Rightarrow> Inl e | Inr (p, rt') \<Rightarrow> Inr rt'))"

text \<open>How many entries of the registry carry the name \<open>n\<close>.\<close>

definition registrations :: "string \<Rightarrow> gruntime \<Rightarrow> nat" where
  "registrations n rt = length (filter (\<lambda>e. gtype_name e = n) (registry rt))"

text \<open>
  The invariant of the process state: the parent type is registered with the base
  capabilities and is not final, and the guard is set exactly when \<open>MyApplication\<close> is
  registered, once, final, with the base capabilities.
\<close>

definition runtime_ok :: "gruntime \<Rightarrow> bool" where
  "runtime_ok rt \<longleftrightarrow>
     (\<exists>pe. lookup_type my_application_parent (registry rt) = Some pe \<and>
           \<not> gtype_final pe \<and>
           set base_application_capabilities \<subseteq> set (gtype_capabilities pe)) \<and>
     (if my_application_type_once rt
      then registrations (concrete_name my_application_identity) rt = 1 \<and>
           (\<exists>e. lookup_type (concrete_name my_application_identity) (registry rt) = Some e \<and>
                gtype_final e \<and>
                set base_application_capabilities \<subseteq> set (gtype_capabilities e))
      else registrations (concrete_name my_application_identity) rt = 0)"

section \<open>\<open>main\<close> as one equation\<close>

lemma main_unfold:
  "main tk argc argv s0 =
     (case app_new tk s0 of
        (app, s1) \<Rightarrow>
          (case app_run tk app argc argv s1 of
             (r, s2) \<Rightarrow>
               (r, if app = NULL
                   then \<lparr>toolkit_state = s2,
                         calls = [Call_new app, Call_run app argc argv r]\<rparr>
                   else \<lparr>toolkit_state = object_unref tk app s2,
                         calls = [Call_new app, Call_run app argc argv r, Call_unref app]\<rparr>)))"
  by (simp add: main_def process_start_def call_my_application_new_def
      call_g_application_run_def call_g_object_unref_def G_APPLICATION_def
      glib_autoptr_cleanup_MyApplication_def split: prod.splits)

lemma main_eq:
  assumes "app_new tk s0 = (app, s1)" and "app_run tk app argc argv s1 = (r, s2)"
  shows "main tk argc argv s0 =
     (r, if app = NULL
         then \<lparr>toolkit_state = s2, calls = [Call_new app, Call_run app argc argv r]\<rparr>
         else \<lparr>toolkit_state = object_unref tk app s2,
               calls = [Call_new app, Call_run app argc argv r, Call_unref app]\<rparr>)"
  using assms by (simp add: main_unfold)

lemma main_exit_code:
  "exit_code (main tk argc argv s0)
     = fst (app_run tk (fst (app_new tk s0)) argc argv (snd (app_new tk s0)))"
  by (simp add: exit_code_def main_unfold split: prod.splits)

lemma main_final_state:
  "final_state (main tk argc argv s0) =
     (let app = fst (app_new tk s0);
          s2 = snd (app_run tk app argc argv (snd (app_new tk s0)))
      in if app = NULL then s2 else object_unref tk app s2)"
  by (simp add: final_state_def main_unfold split: prod.splits)

lemma double_new: "app_new (toolkit_double p r) s = (p, Suc s)"
  by (simp add: toolkit_double_def)

lemma double_run: "app_run (toolkit_double p r) application argc argv s = (r, s)"
  by (simp add: toolkit_double_def)

section \<open>The entry point\<close>

text \<open>
  C1. Whatever status \<open>r\<close> the run routine returns, \<open>main\<close> returns exactly \<open>r\<close>: the value
  is not transformed and \<open>main\<close> has no status of its own. (The exit code is the value
  \<open>main\<close> returns; what the operating system keeps of it is outside the program.)
\<close>

theorem main_returns_run_status:
  assumes "app_new tk s0 = (app, s1)"
    and "app_run tk (G_APPLICATION app) argc argv s1 = (r, s2)"
  shows "exit_code (main tk argc argv s0) = r"
  using assms by (simp add: exit_code_def G_APPLICATION_def main_eq)

theorem main_returns_run_status_witness:
  "app_new (toolkit_double (Addr 1) 1) (0::nat) = (Addr 1, Suc 0) \<and>
   app_run (toolkit_double (Addr 1) 1) (G_APPLICATION (Addr 1)) 2 [''fedi3'', ''--verbose''] (Suc 0)
     = (1, Suc 0) \<and>
   exit_code (main (toolkit_double (Addr 1) 1) 2 [''fedi3'', ''--verbose''] 0) = 1"
proof -
  have h1: "app_new (toolkit_double (Addr 1) 1) (0::nat) = (Addr 1, Suc 0)"
    by (rule double_new)
  have h2: "app_run (toolkit_double (Addr 1) 1) (G_APPLICATION (Addr 1)) 2
      [''fedi3'', ''--verbose''] (Suc 0) = (1, Suc 0)"
    by (rule double_run)
  from main_returns_run_status [OF h1 h2] h1 h2 show ?thesis by simp
qed

text \<open>
  C2. Every run of \<open>main\<close>, whatever its arguments (the empty argument list included),
  applies the factory \<open>my_application_new\<close> exactly once and the run routine exactly once,
  the factory first. With \<open>app\<close> and \<open>s1\<close> what the toolkit's factory returns at the
  starting state, and \<open>r\<close> and \<open>s2\<close> what the toolkit's run routine returns at \<open>app\<close>,
  \<open>argc\<close>, \<open>argv\<close> and \<open>s1\<close>: the calls of \<open>main\<close> hold one factory call and one run
  call, they are its first two calls and carry these very values, and the toolkit state
  \<open>main\<close> leaves is \<open>s2\<close>, after the release of a non-\<open>NULL\<close> handle: the state of one
  construction followed by one run.
\<close>

theorem main_constructs_once_then_runs_once:
  assumes "app_new tk s0 = (app, s1)"
    and "app_run tk (G_APPLICATION app) argc argv s1 = (r, s2)"
  shows "length (filter is_new (calls_made (main tk argc argv s0))) = 1 \<and>
         length (filter is_run (calls_made (main tk argc argv s0))) = 1 \<and>
         take 2 (calls_made (main tk argc argv s0))
           = [Call_new app, Call_run (G_APPLICATION app) argc argv r] \<and>
         final_state (main tk argc argv s0)
           = (if app = NULL then s2 else object_unref tk app s2)"
  using assms
  by (simp add: calls_made_def final_state_def G_APPLICATION_def main_eq)

theorem main_constructs_once_then_runs_once_witness:
  "app_new counting_toolkit (0, 0, 0) = (Addr 1, (1, 0, 0)) \<and>
   app_run counting_toolkit (G_APPLICATION (Addr 1)) 0 [] (1, 0, 0) = (0, (1, 1, 0)) \<and>
   length (filter is_new (calls_made (main counting_toolkit 0 [] (0, 0, 0)))) = 1 \<and>
   length (filter is_run (calls_made (main counting_toolkit 0 [] (0, 0, 0)))) = 1 \<and>
   take 2 (calls_made (main counting_toolkit 0 [] (0, 0, 0)))
     = [Call_new (Addr 1), Call_run (Addr 1) 0 [] 0] \<and>
   final_state (main counting_toolkit 0 [] (0, 0, 0)) = (1, 1, 1)"
proof -
  have h1: "app_new counting_toolkit (0, 0, 0) = (Addr 1, (1, 0, 0))"
    by (simp add: counting_toolkit_def)
  have h2: "app_run counting_toolkit (G_APPLICATION (Addr 1)) 0 [] (1, 0, 0) = (0, (1, 1, 0))"
    by (simp add: counting_toolkit_def G_APPLICATION_def)
  have h3: "object_unref counting_toolkit (Addr 1) (1, 1, 0) = (1, 1, 1)"
    by (simp add: counting_toolkit_def)
  from main_constructs_once_then_runs_once [OF h1 h2] h1 h2 h3 show ?thesis
    by (simp add: G_APPLICATION_def)
qed

text \<open>
  On the paths where every call returns, \<open>main_outcome\<close> is \<open>main\<close>.
\<close>

lemma main_outcome_always_returns:
  "main_outcome (always_returns tk) argc argv s0 =
     \<lparr>ending = Main_returned (exit_code (main tk argc argv s0)),
      started = map started_of (calls_made (main tk argc argv s0)),
      last_state = final_state (main tk argc argv s0)\<rparr>"
  by (simp add: main_outcome_def always_returns_def main_unfold exit_code_def calls_made_def
      final_state_def G_APPLICATION_def split: prod.splits)

text \<open>
  C3, as the claim states it, fails: release on every exit path, error paths raised inside
  the run routine included. Here the factory has returned an instance and the run routine
  ends the process instead of returning: \<open>main\<close> never resumes, the scope of \<open>app\<close> is
  never left, and no release is started: zero, not one.
\<close>

theorem main_releases_on_every_path_counterexample:
  "main_outcome run_exits_toolkit 1 [''fedi3''] (0, 0, 0) =
     \<lparr>ending = Ended_in_toolkit,
      started = [Started_new, Started_run (Addr 1) 1 [''fedi3'']],
      last_state = (1, 1, 0)\<rparr> \<and>
   length (filter is_started_unref
            (started (main_outcome run_exits_toolkit 1 [''fedi3''] (0, 0, 0)))) = 0 \<and>
   length (filter is_started_unref
            (started (main_outcome run_exits_toolkit 1 [''fedi3''] (0, 0, 0)))) \<noteq> 1"
  by (simp add: main_outcome_def run_exits_toolkit_def G_APPLICATION_def)

text \<open>
  C3, amended. When the factory has returned an instance: on every path where the run
  routine returns to \<open>main\<close>, whatever status \<open>r\<close> it returns, \<open>main\<close> releases the reference
  it holds exactly once, by one \<open>g_object_unref\<close> on that instance, started after the run
  routine has returned and last of its calls; \<open>main\<close> then returns \<open>r\<close>. On a path where the
  run routine ends the process instead of returning, \<open>main\<close> starts no release.
\<close>

theorem main_releases_once_when_run_returns:
  assumes "new_outcome tk s0 = Returns (Addr a) s1"
  shows "(case run_outcome tk (G_APPLICATION (Addr a)) argc argv s1 of
            Returns r s2 \<Rightarrow>
              started (main_outcome tk argc argv s0)
                = [Started_new, Started_run (Addr a) argc argv, Started_unref (Addr a)] \<and>
              length (filter is_started_unref (started (main_outcome tk argc argv s0))) = 1 \<and>
              (case unref_outcome tk (Addr a) s2 of
                 Returns u s3 \<Rightarrow>
                   ending (main_outcome tk argc argv s0) = Main_returned r \<and>
                   last_state (main_outcome tk argc argv s0) = s3
               | Ends_process s \<Rightarrow>
                   ending (main_outcome tk argc argv s0) = Ended_in_toolkit \<and>
                   last_state (main_outcome tk argc argv s0) = s)
          | Ends_process s \<Rightarrow>
              started (main_outcome tk argc argv s0)
                = [Started_new, Started_run (Addr a) argc argv] \<and>
              length (filter is_started_unref (started (main_outcome tk argc argv s0))) = 0 \<and>
              ending (main_outcome tk argc argv s0) = Ended_in_toolkit \<and>
              last_state (main_outcome tk argc argv s0) = s)"
  using assms
  by (simp add: main_outcome_def G_APPLICATION_def split: outcome.splits)

theorem main_releases_once_when_run_returns_witness:
  "new_outcome (always_returns counting_toolkit) (0, 0, 0) = Returns (Addr 1) (1, 0, 0) \<and>
   run_outcome (always_returns counting_toolkit) (G_APPLICATION (Addr 1)) 1 [''fedi3''] (1, 0, 0)
     = Returns 0 (1, 1, 0) \<and>
   unref_outcome (always_returns counting_toolkit) (Addr 1) (1, 1, 0) = Returns () (1, 1, 1) \<and>
   started (main_outcome (always_returns counting_toolkit) 1 [''fedi3''] (0, 0, 0))
     = [Started_new, Started_run (Addr 1) 1 [''fedi3''], Started_unref (Addr 1)] \<and>
   length (filter is_started_unref
            (started (main_outcome (always_returns counting_toolkit) 1 [''fedi3''] (0, 0, 0)))) = 1 \<and>
   ending (main_outcome (always_returns counting_toolkit) 1 [''fedi3''] (0, 0, 0))
     = Main_returned 0 \<and>
   last_state (main_outcome (always_returns counting_toolkit) 1 [''fedi3''] (0, 0, 0)) = (1, 1, 1)"
proof -
  have h1: "new_outcome (always_returns counting_toolkit) (0, 0, 0) = Returns (Addr 1) (1, 0, 0)"
    by (simp add: always_returns_def counting_toolkit_def)
  have h2: "run_outcome (always_returns counting_toolkit) (G_APPLICATION (Addr 1)) 1 [''fedi3'']
      (1, 0, 0) = Returns 0 (1, 1, 0)"
    by (simp add: always_returns_def counting_toolkit_def G_APPLICATION_def)
  have h3: "unref_outcome (always_returns counting_toolkit) (Addr 1) (1, 1, 0)
      = Returns () (1, 1, 1)"
    by (simp add: always_returns_def counting_toolkit_def)
  from main_releases_once_when_run_returns [OF h1, of 1 "[''fedi3'']"] h1 h2 h3
  show ?thesis by simp
qed

text \<open>
  C4. The run routine is called with the \<open>argc\<close> and the \<open>argv\<close> that \<open>main\<close> was given,
  unchanged: the only argument pair any run call of \<open>main\<close> carries is \<open>(argc, argv)\<close>, and
  the status \<open>main\<close> returns is the one the run routine computes from them.
\<close>

theorem main_forwards_arguments:
  "List.map_filter run_args (calls_made (main tk argc argv s0)) = [(argc, argv)] \<and>
   exit_code (main tk argc argv s0)
     = fst (app_run tk (G_APPLICATION (fst (app_new tk s0))) argc argv (snd (app_new tk s0)))"
  by (simp add: calls_made_def exit_code_def main_unfold G_APPLICATION_def
      List.map_filter_simps split: prod.splits)

text \<open>
  C8. \<open>main\<close> handles no failure. Whatever the factory returns, \<open>NULL\<close> included, is passed
  to the run routine unchecked; whatever status the run routine returns, non-zero included,
  is returned as it is; and \<open>main\<close> makes no call besides the factory, the run routine and
  the release of a non-\<open>NULL\<close> handle: nothing reports, replaces or retries a failure.
\<close>

theorem main_handles_no_failure:
  assumes "app_new tk s0 = (app, s1)"
    and "app_run tk (G_APPLICATION app) argc argv s1 = (r, s2)"
  shows "main tk argc argv s0 =
           (r, \<lparr>toolkit_state = (if app = NULL then s2 else object_unref tk app s2),
                calls = [Call_new app, Call_run (G_APPLICATION app) argc argv r]
                        @ (if app = NULL then [] else [Call_unref app])\<rparr>)"
  using assms by (simp add: G_APPLICATION_def main_eq)

theorem main_handles_no_failure_witness:
  "app_new (toolkit_double NULL 1) (0::nat) = (NULL, Suc 0) \<and>
   app_run (toolkit_double NULL 1) (G_APPLICATION NULL) 0 [] (Suc 0) = (1, Suc 0) \<and>
   main (toolkit_double NULL 1) 0 [] 0
     = (1, \<lparr>toolkit_state = Suc 0, calls = [Call_new NULL, Call_run NULL 0 [] 1]\<rparr>)"
proof -
  have h1: "app_new (toolkit_double NULL 1) (0::nat) = (NULL, Suc 0)"
    by (rule double_new)
  have h2: "app_run (toolkit_double NULL 1) (G_APPLICATION NULL) 0 [] (Suc 0) = (1, Suc 0)"
    by (rule double_run)
  from main_handles_no_failure [OF h1 h2] h1 h2 show ?thesis
    by (simp add: G_APPLICATION_def)
qed

text \<open>
  C9. The object the run routine receives is the very handle the factory returned: the
  cast \<open>G_APPLICATION\<close> keeps the address, the run call follows the factory call with no
  call in between, and the run routine starts from the toolkit state exactly as the factory
  left it.
\<close>

theorem run_receives_the_constructed_instance:
  assumes "app_new tk s0 = (app, s1)"
  shows "G_APPLICATION app = app \<and>
         take 2 (calls_made (main tk argc argv s0))
           = [Call_new app, Call_run app argc argv (fst (app_run tk app argc argv s1))] \<and>
         exit_code (main tk argc argv s0) = fst (app_run tk app argc argv s1)"
  using assms
  by (simp add: calls_made_def exit_code_def main_unfold G_APPLICATION_def split: prod.splits)

theorem run_receives_the_constructed_instance_witness:
  "app_new (toolkit_double (Addr 3) 0) (5::nat) = (Addr 3, 6) \<and>
   G_APPLICATION (Addr 3) = Addr 3 \<and>
   take 2 (calls_made (main (toolkit_double (Addr 3) 0) 1 [''fedi3''] 5))
     = [Call_new (Addr 3), Call_run (Addr 3) 1 [''fedi3''] 0] \<and>
   exit_code (main (toolkit_double (Addr 3) 0) 1 [''fedi3''] 5) = 0"
proof -
  have h1: "app_new (toolkit_double (Addr 3) 0) (5::nat) = (Addr 3, 6)"
    by (simp add: double_new)
  from run_receives_the_constructed_instance [OF h1, of 1 "[''fedi3'']"] h1
  show ?thesis by (simp add: double_run)
qed

text \<open>
  C10. \<open>main\<close> is a function of what its two collaborators return. Two runs in which the
  factory returns the same handle and the run routine the same status return the same
  exit code, whatever the toolkits, the starting states and the arguments. And \<open>main\<close>
  reads nothing of \<open>argv\<close>: translating the argument vector before \<open>main\<close> or inside the
  run routine gives the same exit code and the same final toolkit state.
\<close>

theorem main_deterministic_in_collaborators:
  assumes "fst (app_new tk1 s1) = fst (app_new tk2 s2)"
    and "fst (app_run tk1 (G_APPLICATION (fst (app_new tk1 s1))) argc1 argv1 (snd (app_new tk1 s1)))
       = fst (app_run tk2 (G_APPLICATION (fst (app_new tk2 s2))) argc2 argv2 (snd (app_new tk2 s2)))"
  shows "exit_code (main tk1 argc1 argv1 s1) = exit_code (main tk2 argc2 argv2 s2) \<and>
         exit_code (main (recode_argv f tk1) argc1 argv1 s1)
           = exit_code (main tk1 argc1 (f argv1) s1) \<and>
         final_state (main (recode_argv f tk1) argc1 argv1 s1)
           = final_state (main tk1 argc1 (f argv1) s1)"
proof -
  have same_status: "exit_code (main tk1 argc1 argv1 s1) = exit_code (main tk2 argc2 argv2 s2)"
    using assms by (simp add: main_exit_code G_APPLICATION_def)
  have recoded_status: "exit_code (main (recode_argv f tk1) argc1 argv1 s1)
      = exit_code (main tk1 argc1 (f argv1) s1)"
    by (simp add: main_exit_code recode_argv_def)
  have recoded_state: "final_state (main (recode_argv f tk1) argc1 argv1 s1)
      = final_state (main tk1 argc1 (f argv1) s1)"
    by (simp add: main_final_state recode_argv_def Let_def)
  from same_status recoded_status recoded_state show ?thesis by simp
qed

theorem main_deterministic_in_collaborators_witness:
  "fst (app_new (toolkit_double (Addr 1) 3) (0::nat)) = fst (app_new (toolkit_double (Addr 1) 3) 9) \<and>
   fst (app_run (toolkit_double (Addr 1) 3)
          (G_APPLICATION (fst (app_new (toolkit_double (Addr 1) 3) 0))) 1 [''fedi3'']
          (snd (app_new (toolkit_double (Addr 1) 3) 0)))
     = fst (app_run (toolkit_double (Addr 1) 3)
          (G_APPLICATION (fst (app_new (toolkit_double (Addr 1) 3) 9))) 2 [''fedi3'', ''-x'']
          (snd (app_new (toolkit_double (Addr 1) 3) 9))) \<and>
   exit_code (main (toolkit_double (Addr 1) 3) 1 [''fedi3''] 0)
     = exit_code (main (toolkit_double (Addr 1) 3) 2 [''fedi3'', ''-x''] 9) \<and>
   exit_code (main (recode_argv rev (toolkit_double (Addr 1) 3)) 1 [''fedi3''] 0)
     = exit_code (main (toolkit_double (Addr 1) 3) 1 (rev [''fedi3'']) 0) \<and>
   final_state (main (recode_argv rev (toolkit_double (Addr 1) 3)) 1 [''fedi3''] 0)
     = final_state (main (toolkit_double (Addr 1) 3) 1 (rev [''fedi3'']) 0)"
proof -
  have h1: "fst (app_new (toolkit_double (Addr 1) 3) (0::nat))
      = fst (app_new (toolkit_double (Addr 1) 3) 9)"
    by (simp add: double_new)
  have h2: "fst (app_run (toolkit_double (Addr 1) 3)
          (G_APPLICATION (fst (app_new (toolkit_double (Addr 1) 3) 0))) 1 [''fedi3'']
          (snd (app_new (toolkit_double (Addr 1) 3) 0)))
     = fst (app_run (toolkit_double (Addr 1) 3)
          (G_APPLICATION (fst (app_new (toolkit_double (Addr 1) 3) 9))) 2 [''fedi3'', ''-x'']
          (snd (app_new (toolkit_double (Addr 1) 3) 9)))"
    by (simp add: double_run)
  from main_deterministic_in_collaborators [OF h1 h2, of rev] h1 h2 show ?thesis
    by blast
qed

section \<open>The factory and the one-time registration\<close>

lemma find_append_cases:
  "find P (xs @ ys) = (case find P xs of None \<Rightarrow> find P ys | Some x \<Rightarrow> Some x)"
  by (induction xs) simp_all

lemma lookup_type_None_iff:
  "lookup_type n reg = None \<longleftrightarrow> length (filter (\<lambda>e. gtype_name e = n) reg) = 0"
  by (auto simp: lookup_type_def find_None_iff filter_empty_conv)

lemma fresh_address_above: "(a, n) \<in> set objs \<Longrightarrow> a < fresh_address objs"
  unfolding fresh_address_def by (induction objs) auto

lemma fresh_address_is_fresh: "fresh_address objs \<notin> fst ` set objs"
  using fresh_address_above by fastforce

lemma map_of_fresh_append:
  "a \<notin> fst ` set objs \<Longrightarrow> map_of (objs @ [(a, n)]) a = Some n"
proof -
  assume "a \<notin> fst ` set objs"
  then have "map_of objs a = None" by (simp add: map_of_eq_None_iff)
  then show ?thesis by (simp add: map_add_def)
qed

lemma runtime_start_ok: "runtime_ok runtime_start"
  by (simp add: runtime_ok_def runtime_start_def toolkit_registry_def lookup_type_def
      registrations_def my_application_parent_def my_application_identity_def)

lemma get_type_registered:
  assumes "runtime_ok rt" and "my_application_type_once rt"
  shows "my_application_get_type rt = Inr rt"
  using assms by (simp add: my_application_get_type_def)

lemma get_type_first_use:
  assumes ok: "runtime_ok rt" and first: "\<not> my_application_type_once rt"
  shows "\<exists>rt1. my_application_get_type rt = Inr rt1 \<and> runtime_ok rt1 \<and>
           my_application_type_once rt1 \<and> objects rt1 = objects rt \<and>
           registrations (concrete_name my_application_identity) rt1 = 1"
proof -
  from ok obtain pe where
    pe: "lookup_type my_application_parent (registry rt) = Some pe"
    and derivable: "\<not> gtype_final pe"
    and caps: "set base_application_capabilities \<subseteq> set (gtype_capabilities pe)"
    by (auto simp: runtime_ok_def)
  from ok first have none: "registrations (concrete_name my_application_identity) rt = 0"
    by (simp add: runtime_ok_def)
  then have unreg: "lookup_type (concrete_name my_application_identity) (registry rt) = None"
    by (simp add: lookup_type_None_iff registrations_def)
  let ?e = "\<lparr>gtype_name = concrete_name my_application_identity,
             gtype_parent = Some my_application_parent,
             gtype_capabilities = gtype_capabilities pe @ [],
             gtype_final = my_application_final\<rparr>"
  let ?rt1 = "rt\<lparr>registry := registry rt @ [?e], my_application_type_once := True\<rparr>"
  have step: "my_application_get_type rt = Inr ?rt1"
    using first pe unreg derivable
    by (simp add: my_application_get_type_def g_type_register_def)
  have differ: "concrete_name my_application_identity \<noteq> my_application_parent"
    by (simp add: my_application_identity_def my_application_parent_def)
  have parent_kept: "lookup_type my_application_parent (registry ?rt1) = Some pe"
    using pe by (simp add: lookup_type_def find_append_cases)
  have mine: "lookup_type (concrete_name my_application_identity) (registry ?rt1) = Some ?e"
    using unreg by (simp add: lookup_type_def find_append_cases)
  have once: "registrations (concrete_name my_application_identity) ?rt1 = 1"
    using none by (simp add: registrations_def)
  have "runtime_ok ?rt1"
    unfolding runtime_ok_def using parent_kept mine once caps derivable
    by (simp add: my_application_final_def)
  with step once show ?thesis by simp
qed

lemma get_type_ok:
  assumes "runtime_ok rt"
  shows "\<exists>rt1. my_application_get_type rt = Inr rt1 \<and> runtime_ok rt1 \<and>
           my_application_type_once rt1 \<and> objects rt1 = objects rt \<and>
           registrations (concrete_name my_application_identity) rt1 = 1 \<and>
           (my_application_type_once rt \<longrightarrow> rt1 = rt)"
proof (cases "my_application_type_once rt")
  case True
  with assms show ?thesis
    by (simp add: get_type_registered runtime_ok_def)
next
  case False
  with get_type_first_use [OF assms] show ?thesis by simp
qed

lemma runtime_ok_objects:
  "runtime_ok (rt\<lparr>objects := objs\<rparr>) = runtime_ok rt"
  by (simp add: runtime_ok_def registrations_def)

lemma new_ok:
  assumes "runtime_ok rt"
  shows "\<exists>a rt'. my_application_new rt = Inr (Addr a, rt') \<and> runtime_ok rt' \<and>
           my_application_type_once rt' \<and>
           registrations (concrete_name my_application_identity) rt' = 1 \<and>
           (my_application_type_once rt \<longrightarrow> registry rt' = registry rt) \<and>
           a \<notin> fst ` set (objects rt) \<and>
           objects rt' = objects rt @ [(a, concrete_name my_application_identity)]"
proof -
  from get_type_ok [OF assms] obtain rt1 where
    g: "my_application_get_type rt = Inr rt1" and ok1: "runtime_ok rt1"
    and once1: "my_application_type_once rt1" and objs: "objects rt1 = objects rt"
    and reg1: "registrations (concrete_name my_application_identity) rt1 = 1"
    and same: "my_application_type_once rt \<longrightarrow> rt1 = rt"
    by blast
  let ?a = "fresh_address (objects rt1)"
  let ?rt' = "rt1\<lparr>objects := objects rt1 @ [(?a, concrete_name my_application_identity)]\<rparr>"
  have step: "my_application_new rt = Inr (Addr ?a, ?rt')"
    using g by (simp add: my_application_new_def Let_def)
  have "runtime_ok ?rt'" using ok1 by (simp add: runtime_ok_objects)
  moreover have "?a \<notin> fst ` set (objects rt)"
    using fresh_address_is_fresh [of "objects rt1"] objs by simp
  moreover have "registrations (concrete_name my_application_identity) ?rt' = 1"
    using reg1 by (simp add: registrations_def)
  moreover have "my_application_type_once rt \<longrightarrow> registry ?rt' = registry rt"
    using same by auto
  ultimately show ?thesis using step once1 objs by simp
qed

lemma after_constructions_ok:
  "\<exists>rt. after_constructions n = Inr rt \<and> runtime_ok rt \<and> (0 < n \<longrightarrow> my_application_type_once rt)"
proof (induction n)
  case 0
  show ?case by (simp add: runtime_start_ok)
next
  case (Suc n)
  then obtain rt where rt: "after_constructions n = Inr rt" and ok: "runtime_ok rt"
    by blast
  from new_ok [OF ok] obtain a rt' where
    "my_application_new rt = Inr (Addr a, rt')" "runtime_ok rt'" "my_application_type_once rt'"
    by blast
  with rt show ?case by simp
qed

lemma capabilities_of_new_instance:
  assumes ok: "runtime_ok rt'" and once: "my_application_type_once rt'"
    and obj: "map_of (objects rt') a = Some (concrete_name my_application_identity)"
  shows "set base_application_capabilities \<subseteq> set (instance_capabilities rt' (Addr a))"
proof -
  from ok once obtain e where
    "lookup_type (concrete_name my_application_identity) (registry rt') = Some e"
    "set base_application_capabilities \<subseteq> set (gtype_capabilities e)"
    by (auto simp: runtime_ok_def)
  with obj show ?thesis by (simp add: instance_capabilities_def)
qed

text \<open>
  C5. The factory takes no input (it reads only the process state), and every call of it,
  the first and each later one, returns a newly constructed \<open>MyApplication\<close>: a handle to
  an object that did not exist before the call and is of type \<open>MyApplication\<close> after it,
  and that implements every capability of the toolkit's base Application interface.
\<close>

theorem my_application_new_constructs_new_instance:
  "\<exists>rt a rt'.
     after_constructions n = Inr rt \<and>
     my_application_new rt = Inr (Addr a, rt') \<and>
     a \<notin> fst ` set (objects rt) \<and>
     objects rt' = objects rt @ [(a, concrete_name my_application_identity)] \<and>
     map_of (objects rt') a = Some (concrete_name my_application_identity) \<and>
     set base_application_capabilities \<subseteq> set (instance_capabilities rt' (Addr a))"
proof -
  from after_constructions_ok [of n] obtain rt where
    rt: "after_constructions n = Inr rt" and ok: "runtime_ok rt"
    by blast
  from new_ok [OF ok] obtain a rt' where
    new: "my_application_new rt = Inr (Addr a, rt')" and ok': "runtime_ok rt'"
    and once': "my_application_type_once rt'"
    and fresh: "a \<notin> fst ` set (objects rt)"
    and objs: "objects rt' = objects rt @ [(a, concrete_name my_application_identity)]"
    by blast
  have obj: "map_of (objects rt') a = Some (concrete_name my_application_identity)"
    unfolding objs by (rule map_of_fresh_append [OF fresh])
  from capabilities_of_new_instance [OF ok' once' obj] rt new fresh objs obj
  show ?thesis by blast
qed

theorem my_application_new_constructs_new_instance_witness:
  "\<exists>rt rt'.
     after_constructions 1 = Inr rt \<and>
     my_application_new rt = Inr (Addr 2, rt') \<and>
     objects rt = [(1, ''MyApplication'')] \<and>
     objects rt' = [(1, ''MyApplication''), (2, ''MyApplication'')] \<and>
     instance_capabilities rt' (Addr 2) = [Lifecycle_signals, Command_line_hooks]"
proof -
  from my_application_new_constructs_new_instance [of 1] obtain rt a rt' where
    rt: "after_constructions 1 = Inr rt" and new: "my_application_new rt = Inr (Addr a, rt')"
    by blast
  have first: "after_constructions 1 = Inr
      \<lparr>registry =
         [\<lparr>gtype_name = ''GtkApplication'', gtype_parent = None,
           gtype_capabilities = [Lifecycle_signals, Command_line_hooks], gtype_final = False\<rparr>,
          \<lparr>gtype_name = ''MyApplication'', gtype_parent = Some ''GtkApplication'',
           gtype_capabilities = [Lifecycle_signals, Command_line_hooks], gtype_final = True\<rparr>],
       my_application_type_once = True,
       objects = [(1, ''MyApplication'')]\<rparr>"
    by code_simp
  with rt have rt_eq: "rt =
      \<lparr>registry =
         [\<lparr>gtype_name = ''GtkApplication'', gtype_parent = None,
           gtype_capabilities = [Lifecycle_signals, Command_line_hooks], gtype_final = False\<rparr>,
          \<lparr>gtype_name = ''MyApplication'', gtype_parent = Some ''GtkApplication'',
           gtype_capabilities = [Lifecycle_signals, Command_line_hooks], gtype_final = True\<rparr>],
       my_application_type_once = True,
       objects = [(1, ''MyApplication'')]\<rparr>"
    by simp
  have second: "my_application_new rt = Inr (Addr 2,
      \<lparr>registry =
         [\<lparr>gtype_name = ''GtkApplication'', gtype_parent = None,
           gtype_capabilities = [Lifecycle_signals, Command_line_hooks], gtype_final = False\<rparr>,
          \<lparr>gtype_name = ''MyApplication'', gtype_parent = Some ''GtkApplication'',
           gtype_capabilities = [Lifecycle_signals, Command_line_hooks], gtype_final = True\<rparr>],
       my_application_type_once = True,
       objects = [(1, ''MyApplication''), (2, ''MyApplication'')]\<rparr>)"
    unfolding rt_eq by code_simp
  have caps: "instance_capabilities
      \<lparr>registry =
         [\<lparr>gtype_name = ''GtkApplication'', gtype_parent = None,
           gtype_capabilities = [Lifecycle_signals, Command_line_hooks], gtype_final = False\<rparr>,
          \<lparr>gtype_name = ''MyApplication'', gtype_parent = Some ''GtkApplication'',
           gtype_capabilities = [Lifecycle_signals, Command_line_hooks], gtype_final = True\<rparr>],
       my_application_type_once = True,
       objects = [(1, ''MyApplication''), (2, ''MyApplication'')]\<rparr> (Addr 2)
      = [Lifecycle_signals, Command_line_hooks]"
    by code_simp
  from rt second caps rt_eq show ?thesis by simp
qed

lemma registry_after_first:
  "\<exists>rt1 rt. after_constructions (Suc 0) = Inr rt1 \<and> after_constructions (Suc n) = Inr rt \<and>
      registry rt = registry rt1"
proof (induction n)
  case 0
  from after_constructions_ok [of "Suc 0"] show ?case by auto
next
  case (Suc n)
  then obtain rt1 rt where r1: "after_constructions (Suc 0) = Inr rt1"
    and rn: "after_constructions (Suc n) = Inr rt" and eq: "registry rt = registry rt1"
    by blast
  from after_constructions_ok [of "Suc n"] rn have ok: "runtime_ok rt"
    and once: "my_application_type_once rt" by auto
  from new_ok [OF ok] once obtain a rt' where
    "my_application_new rt = Inr (Addr a, rt')" "registry rt' = registry rt"
    by blast
  with r1 rn eq show ?case by simp
qed

text \<open>
  C7. The registration of \<open>MyApplication\<close> is idempotent. The type is not registered at
  process start and is registered exactly once by the first construction. After any number
  of constructions the type guard returns the state as it is, and one more call of the
  factory succeeds (the registration mechanism reports no failure) and leaves the registry
  as the first construction left it.
\<close>

theorem my_application_type_registered_once:
  "registrations (concrete_name my_application_identity) runtime_start = 0 \<and>
   (\<exists>rt1 rt p rt'.
      after_constructions (Suc 0) = Inr rt1 \<and>
      registrations (concrete_name my_application_identity) rt1 = 1 \<and>
      after_constructions (Suc n) = Inr rt \<and>
      my_application_get_type rt = Inr rt \<and>
      my_application_new rt = Inr (p, rt') \<and>
      registry rt' = registry rt1)"
proof -
  have start: "registrations (concrete_name my_application_identity) runtime_start = 0"
    by (simp add: registrations_def runtime_start_def toolkit_registry_def
        my_application_identity_def)
  from registry_after_first [of n] obtain rt1 rt where
    r1: "after_constructions (Suc 0) = Inr rt1" and rn: "after_constructions (Suc n) = Inr rt"
    and eq: "registry rt = registry rt1"
    by blast
  from after_constructions_ok [of "Suc 0"] r1 have "runtime_ok rt1" "my_application_type_once rt1"
    by auto
  then have one: "registrations (concrete_name my_application_identity) rt1 = 1"
    by (simp add: runtime_ok_def)
  from after_constructions_ok [of "Suc n"] rn have ok: "runtime_ok rt"
    and once: "my_application_type_once rt" by auto
  from new_ok [OF ok] once obtain a rt' where
    new: "my_application_new rt = Inr (Addr a, rt')" and same: "registry rt' = registry rt"
    by blast
  from start r1 one rn get_type_registered [OF ok once] new same eq show ?thesis
    by auto
qed

theorem my_application_type_registered_once_witness:
  "registrations ''MyApplication'' runtime_start = 0 \<and>
   (\<exists>rt1 rt p rt'.
      after_constructions 1 = Inr rt1 \<and>
      registrations ''MyApplication'' rt1 = 1 \<and>
      map gtype_name (registry rt1) = [''GtkApplication'', ''MyApplication''] \<and>
      after_constructions 2 = Inr rt \<and>
      my_application_new rt = Inr (p, rt') \<and>
      map gtype_name (registry rt') = [''GtkApplication'', ''MyApplication''])"
proof -
  have name: "concrete_name my_application_identity = ''MyApplication''"
    by (simp add: my_application_identity_def)
  from my_application_type_registered_once [of 1] obtain rt1 rt p rt' where
    start: "registrations ''MyApplication'' runtime_start = 0"
    and r1: "after_constructions (Suc 0) = Inr rt1"
    and one: "registrations ''MyApplication'' rt1 = 1"
    and r2: "after_constructions (Suc 1) = Inr rt"
    and new: "my_application_new rt = Inr (p, rt')"
    and same: "registry rt' = registry rt1"
    unfolding name by blast
  have "map_sum id (\<lambda>rt. map gtype_name (registry rt)) (after_constructions (Suc 0))
      = Inr [''GtkApplication'', ''MyApplication'']"
    by code_simp
  with r1 have names: "map gtype_name (registry rt1) = [''GtkApplication'', ''MyApplication'']"
    by simp
  have two: "Suc 1 = 2" by simp
  from start r1 one names r2 new same show ?thesis
    unfolding two by auto
qed

section \<open>The type is final\<close>

lemma subtype_refused:
  assumes ok: "runtime_ok rt"
  shows "g_type_register name (concrete_name my_application_identity) own final (registry rt)
     = Inl (case lookup_type name (registry rt) of
              Some x \<Rightarrow> Type_already_registered
            | None \<Rightarrow> (if my_application_type_once rt then Parent_is_final
                       else Parent_not_registered))"
proof (cases "my_application_type_once rt")
  case True
  with ok obtain e where
    "lookup_type (concrete_name my_application_identity) (registry rt) = Some e" "gtype_final e"
    by (auto simp: runtime_ok_def)
  with True show ?thesis
    by (simp add: g_type_register_def split: option.splits)
next
  case False
  with ok have "registrations (concrete_name my_application_identity) rt = 0"
    by (simp add: runtime_ok_def)
  then have "lookup_type (concrete_name my_application_identity) (registry rt) = None"
    by (simp add: lookup_type_None_iff registrations_def)
  with False show ?thesis
    by (simp add: g_type_register_def split: option.splits)
qed

lemma after_constructions_guard:
  "\<exists>rt. after_constructions n = Inr rt \<and> runtime_ok rt \<and> (my_application_type_once rt = (n \<noteq> 0))"
proof (cases n)
  case 0
  then show ?thesis by (simp add: runtime_start_ok) (simp add: runtime_start_def)
next
  case (Suc m)
  with after_constructions_ok [of n] show ?thesis by auto
qed

text \<open>
  C6. \<open>MyApplication\<close> is final: at every moment of the process, after any number \<open>n\<close> of
  constructions, registering a type of any name, with any capabilities of its own, as a
  subtype of \<open>MyApplication\<close> fails. Once the type is registered (\<open>n > 0\<close>) its registry
  entry is final and the attempt is refused for that reason; before the first construction
  there is no such type to derive from. (An attempt under a name already taken fails as a
  duplicate.) No subtype of \<open>MyApplication\<close> is ever added to the registry.
\<close>

theorem my_application_admits_no_subtype:
  "\<exists>rt. after_constructions n = Inr rt \<and>
        g_type_register name (concrete_name my_application_identity) own final (registry rt)
          = Inl (case lookup_type name (registry rt) of
                   Some x \<Rightarrow> Type_already_registered
                 | None \<Rightarrow> (if n = 0 then Parent_not_registered else Parent_is_final)) \<and>
        (if n = 0
         then lookup_type (concrete_name my_application_identity) (registry rt) = None
         else (\<exists>e. lookup_type (concrete_name my_application_identity) (registry rt) = Some e \<and>
                   gtype_final e))"
proof -
  from after_constructions_guard [of n] obtain rt where
    rt: "after_constructions n = Inr rt" and ok: "runtime_ok rt"
    and guard: "my_application_type_once rt = (n \<noteq> 0)"
    by blast
  have refused: "g_type_register name (concrete_name my_application_identity) own final (registry rt)
      = Inl (case lookup_type name (registry rt) of
               Some x \<Rightarrow> Type_already_registered
             | None \<Rightarrow> (if n = 0 then Parent_not_registered else Parent_is_final))"
    using subtype_refused [OF ok, of name own final] guard
    by (cases "n = 0") (simp_all split: option.splits)
  have entry: "if n = 0
      then lookup_type (concrete_name my_application_identity) (registry rt) = None
      else (\<exists>e. lookup_type (concrete_name my_application_identity) (registry rt) = Some e \<and>
                gtype_final e)"
  proof (cases "n = 0")
    case True
    with guard ok have "registrations (concrete_name my_application_identity) rt = 0"
      by (simp add: runtime_ok_def)
    with True show ?thesis by (simp add: lookup_type_None_iff registrations_def)
  next
    case False
    with guard ok show ?thesis by (auto simp: runtime_ok_def)
  qed
  from rt refused entry show ?thesis by blast
qed

theorem my_application_admits_no_subtype_witness:
  "\<exists>rt. after_constructions 1 = Inr rt \<and>
        map gtype_name (registry rt) = [''GtkApplication'', ''MyApplication''] \<and>
        g_type_register ''SubApplication'' ''MyApplication'' [] False (registry rt)
          = Inl Parent_is_final \<and>
        map_sum id (map gtype_name)
            (g_type_register ''SubApplication'' ''GtkApplication'' [] False (registry rt))
          = Inr [''GtkApplication'', ''MyApplication'', ''SubApplication'']"
proof -
  have name: "concrete_name my_application_identity = ''MyApplication''"
    by (simp add: my_application_identity_def)
  from my_application_admits_no_subtype [of 1 "''SubApplication''" "[]" False] obtain rt where
    rt: "after_constructions 1 = Inr rt"
    and refused: "g_type_register ''SubApplication'' ''MyApplication'' [] False (registry rt)
      = Inl (case lookup_type ''SubApplication'' (registry rt) of
               Some x \<Rightarrow> Type_already_registered
             | None \<Rightarrow> Parent_is_final)"
    unfolding name by auto
  have first: "after_constructions 1 = Inr
      \<lparr>registry =
         [\<lparr>gtype_name = ''GtkApplication'', gtype_parent = None,
           gtype_capabilities = [Lifecycle_signals, Command_line_hooks], gtype_final = False\<rparr>,
          \<lparr>gtype_name = ''MyApplication'', gtype_parent = Some ''GtkApplication'',
           gtype_capabilities = [Lifecycle_signals, Command_line_hooks], gtype_final = True\<rparr>],
       my_application_type_once = True,
       objects = [(1, ''MyApplication'')]\<rparr>"
    by code_simp
  with rt have reg: "registry rt =
         [\<lparr>gtype_name = ''GtkApplication'', gtype_parent = None,
           gtype_capabilities = [Lifecycle_signals, Command_line_hooks], gtype_final = False\<rparr>,
          \<lparr>gtype_name = ''MyApplication'', gtype_parent = Some ''GtkApplication'',
           gtype_capabilities = [Lifecycle_signals, Command_line_hooks], gtype_final = True\<rparr>]"
    by simp
  have unused: "lookup_type ''SubApplication'' (registry rt) = None"
    unfolding reg by code_simp
  have sibling: "map_sum id (map gtype_name)
      (g_type_register ''SubApplication'' ''GtkApplication'' [] False (registry rt))
      = Inr [''GtkApplication'', ''MyApplication'', ''SubApplication'']"
    unfolding reg by code_simp
  have names: "map gtype_name (registry rt) = [''GtkApplication'', ''MyApplication'']"
    unfolding reg by simp
  from rt names refused unused sibling show ?thesis by auto
qed

end
